theory Spec2Isabelle
  imports Complex_Main "HOL-Library.Multiset"
begin

section \<open>Data model (pkg/types/types.go)\<close>

text \<open>
  Go's \<open>float64\<close> is modelled by \<^typ>\<open>real\<close>: the comparisons and the arithmetic of
  the source are read over the real numbers, so rounding errors, infinities and NaN are
  outside this development. Go's \<open>string\<close> is \<^typ>\<open>string\<close>, Go's \<open>int\<close> is
  \<^typ>\<open>int\<close> (no computation below comes near the 64-bit bounds), a pointer that
  may be nil is an \<^typ>\<open>'a option\<close>, and a Go \<open>error\<close> is a value of \<open>go_error\<close>.
  Field names carry a short prefix where two structs share a field name.
\<close>

datatype go_error = Errorf string | Wrap string go_error

record AccountInfo =
  acct_ID :: string
  acct_Alias :: string
  acct_Email :: string
  acct_Name :: string

record MonthlyCost =
  Month :: string
  Amount :: real

record AccountCostData =
  cost_AccountID :: string
  cost_AccountName :: string
  MonthlyCosts :: "MonthlyCost list"
  cost_Error :: "go_error option"

datatype BudgetAccessStatus =
  BudgetAccessSuccess | BudgetAccessNotFound | BudgetAccessDenied | BudgetAccessError

record BudgetConfig =
  bc_AccountID :: string
  bc_AccountName :: string
  BudgetName :: string
  LimitAmount :: real
  TimeUnit :: string
  HasForecasted :: bool
  HasActual :: bool
  Subscribers :: "string list"
  AccessStatus :: BudgetAccessStatus
  AccessError :: "go_error option"

datatype Trend = TrendIncreasing | TrendDecreasing | TrendStable

record SpendStatistics =
  st_AccountID :: string
  st_AccountName :: string
  AverageMonthlySpend :: real
  PeakMonthlySpend :: real
  MinMonthlySpend :: real
  CurrentMonthSpend :: "real option"
  st_Trend :: Trend
  MonthsAnalyzed :: int

datatype BudgetStatus =
  StatusOverBudget | StatusUnderUtilized | StatusAppropriate | StatusNoBudget | StatusUnset

text \<open>
  \<open>BudgetStatus\<close> is a string type in Go; \<open>StatusUnset\<close> stands for its zero value
  \<open>""\<close>, which a \<open>BudgetComparison\<close> literal without a \<open>Status\<close> field carries (the
  tests of the recommender build such values).
\<close>

record BudgetComparison =
  cmp_AccountID :: string
  cmp_AccountName :: string
  cmp_CurrentBudget :: "real option"
  cmp_AverageSpend :: real
  cmp_PeakSpend :: real
  UtilizationPercent :: "real option"
  Status :: BudgetStatus

datatype Priority = PriorityHigh | PriorityMedium | PriorityLow

text \<open>
  The justification is a formatted string in the source (\<open>fmt.Sprintf\<close> with \<open>%.0f\<close>
  and \<open>%.2f\<close>). The model keeps the arguments of the format instead of the rendered
  digits: which message is chosen, the numbers it prints, whether the rounding note is
  appended and which trend remark follows.
\<close>

datatype TrendRemark = RemarkIncreasing | RemarkDecreasing | NoRemark

datatype Justification =
  NoHistoricalData real
  | BasedOnAnalysis int real real real real "real option" TrendRemark

record BudgetRecommendation =
  rec_AccountID :: string
  rec_AccountName :: string
  rec_CurrentBudget :: "real option"
  RecommendedBudget :: real
  rec_AverageSpend :: real
  rec_PeakSpend :: real
  AdjustmentPercent :: real
  rec_Priority :: Priority
  rec_Justification :: Justification
  rec_BudgetAccessStatus :: "BudgetAccessStatus option"
  PolicyName :: string

record RecommendationPolicy =
  Name :: string
  GrowthBuffer :: real
  MinimumBudget :: real
  RoundingIncrement :: real

record OUPolicy =
  ou_OU :: string
  ou_Name :: string
  ou_GrowthBuffer :: real
  ou_MinimumBudget :: real
  ou_RoundingIncrement :: real

record AccountPolicy =
  ap_Account :: string
  ap_Name :: string
  ap_GrowthBuffer :: real
  ap_MinimumBudget :: real
  ap_RoundingIncrement :: real

record TagPolicy =
  TagKey :: string
  TagValue :: string
  tp_Name :: string
  tp_GrowthBuffer :: real
  tp_MinimumBudget :: real
  tp_RoundingIncrement :: real

record PolicyConfig =
  OUPolicies :: "OUPolicy list"
  AccountPolicies :: "AccountPolicy list"
  TagPolicies :: "TagPolicy list"

record AnalysisError =
  ae_AccountID :: string
  ae_AccountName :: string
  ae_Error :: go_error

record AnalysisResult =
  AccountsAnalyzed :: int
  AccountsWithBudgets :: int
  AccountsWithoutBudgets :: int
  Recommendations :: "BudgetRecommendation list"
  Errors :: "AnalysisError list"

section \<open>Policy resolver (internal/policy/resolver.go)\<close>

record Resolver =
  config :: PolicyConfig
  defaultPolicy :: RecommendationPolicy
  accountToOU :: "string \<rightharpoonup> string"
  accountToTags :: "string \<rightharpoonup> (string \<rightharpoonup> string)"

text \<open>
  \<open>mergePolicy\<close> receives \<open>base\<close> by value, copies it into the local \<open>policy\<close> and
  assigns to fields of \<open>policy\<close> only. The two variables are the fields of
  \<open>mergePolicy_vars\<close>; \<open>mergePolicy_run\<close> is the body up to the \<open>return\<close>, so that both
  variables can be read when it ends.
\<close>

record mergePolicy_vars =
  var_base :: RecommendationPolicy
  var_policy :: RecommendationPolicy

definition mergePolicy_run ::
  "RecommendationPolicy \<Rightarrow> string \<Rightarrow> real \<Rightarrow> real \<Rightarrow> real \<Rightarrow> mergePolicy_vars" where
  "mergePolicy_run b name growthBuffer minimumBudget roundingIncrement =
    (let s0 = \<lparr>var_base = b, var_policy = b\<rparr>;
         s1 = (if name \<noteq> [] then s0\<lparr>var_policy := (var_policy s0)\<lparr>Name := name\<rparr>\<rparr> else s0);
         s2 = (if growthBuffer > 0
               then s1\<lparr>var_policy := (var_policy s1)\<lparr>GrowthBuffer := growthBuffer\<rparr>\<rparr> else s1);
         s3 = (if minimumBudget > 0
               then s2\<lparr>var_policy := (var_policy s2)\<lparr>MinimumBudget := minimumBudget\<rparr>\<rparr> else s2);
         s4 = (if roundingIncrement > 0
               then s3\<lparr>var_policy := (var_policy s3)\<lparr>RoundingIncrement := roundingIncrement\<rparr>\<rparr>
               else s3)
     in s4)"

definition mergePolicy ::
  "RecommendationPolicy \<Rightarrow> string \<Rightarrow> real \<Rightarrow> real \<Rightarrow> real \<Rightarrow> RecommendationPolicy" where
  "mergePolicy b name growthBuffer minimumBudget roundingIncrement =
     var_policy (mergePolicy_run b name growthBuffer minimumBudget roundingIncrement)"

text \<open>
  The three \<open>for ... range\<close> loops of \<open>ResolvePolicy\<close>, each returning from the function
  at the first rule that matches (\<open>Some\<close>) or falling through to the code after the
  loop (\<open>None\<close>).
\<close>

fun accountLoop ::
  "RecommendationPolicy \<Rightarrow> string \<Rightarrow> AccountPolicy list \<Rightarrow> RecommendationPolicy option" where
  "accountLoop d accountID [] = None"
| "accountLoop d accountID (p # ps) =
     (if ap_Account p = accountID
      then Some (mergePolicy d (ap_Name p) (ap_GrowthBuffer p) (ap_MinimumBudget p)
                   (ap_RoundingIncrement p))
      else accountLoop d accountID ps)"

fun tagLoop ::
  "RecommendationPolicy \<Rightarrow> (string \<rightharpoonup> string) \<Rightarrow> TagPolicy list \<Rightarrow> RecommendationPolicy option" where
  "tagLoop d tags [] = None"
| "tagLoop d tags (p # ps) =
     (case tags (TagKey p) of
        Some tagValue \<Rightarrow>
          if tagValue = TagValue p
          then Some (mergePolicy d (tp_Name p) (tp_GrowthBuffer p) (tp_MinimumBudget p)
                       (tp_RoundingIncrement p))
          else tagLoop d tags ps
      | None \<Rightarrow> tagLoop d tags ps)"

fun ouLoop ::
  "RecommendationPolicy \<Rightarrow> string \<Rightarrow> OUPolicy list \<Rightarrow> RecommendationPolicy option" where
  "ouLoop d ouID [] = None"
| "ouLoop d ouID (p # ps) =
     (if ou_OU p = ouID
      then Some (mergePolicy d (ou_Name p) (ou_GrowthBuffer p) (ou_MinimumBudget p)
                   (ou_RoundingIncrement p))
      else ouLoop d ouID ps)"

definition ResolvePolicy :: "Resolver \<Rightarrow> string \<Rightarrow> RecommendationPolicy" where
  "ResolvePolicy r accountID =
     (case accountLoop (defaultPolicy r) accountID (AccountPolicies (config r)) of
        Some p \<Rightarrow> p
      | None \<Rightarrow>
        (case (case accountToTags r accountID of
                 Some tags \<Rightarrow> tagLoop (defaultPolicy r) tags (TagPolicies (config r))
               | None \<Rightarrow> None) of
           Some p \<Rightarrow> p
         | None \<Rightarrow>
           (case (case accountToOU r accountID of
                    Some ouID \<Rightarrow> ouLoop (defaultPolicy r) ouID (OUPolicies (config r))
                  | None \<Rightarrow> None) of
              Some p \<Rightarrow> p
            | None \<Rightarrow> defaultPolicy r)))"

text \<open>
  The vocabulary of the specification: when a rule of each kind matches an account, and
  the policy a matched rule stands for (its fields merged onto the default policy).
\<close>

definition accountRuleMatches :: "string \<Rightarrow> AccountPolicy \<Rightarrow> bool" where
  "accountRuleMatches accountID p = (ap_Account p = accountID)"

definition tagRuleMatches :: "Resolver \<Rightarrow> string \<Rightarrow> TagPolicy \<Rightarrow> bool" where
  "tagRuleMatches r accountID p =
     (case accountToTags r accountID of
        None \<Rightarrow> False
      | Some tags \<Rightarrow> tags (TagKey p) = Some (TagValue p))"

definition ouRuleMatches :: "Resolver \<Rightarrow> string \<Rightarrow> OUPolicy \<Rightarrow> bool" where
  "ouRuleMatches r accountID p = (accountToOU r accountID = Some (ou_OU p))"

definition accountRulePolicy :: "Resolver \<Rightarrow> AccountPolicy \<Rightarrow> RecommendationPolicy" where
  "accountRulePolicy r p =
     mergePolicy (defaultPolicy r) (ap_Name p) (ap_GrowthBuffer p) (ap_MinimumBudget p)
       (ap_RoundingIncrement p)"

definition tagRulePolicy :: "Resolver \<Rightarrow> TagPolicy \<Rightarrow> RecommendationPolicy" where
  "tagRulePolicy r p =
     mergePolicy (defaultPolicy r) (tp_Name p) (tp_GrowthBuffer p) (tp_MinimumBudget p)
       (tp_RoundingIncrement p)"

definition ouRulePolicy :: "Resolver \<Rightarrow> OUPolicy \<Rightarrow> RecommendationPolicy" where
  "ouRulePolicy r p =
     mergePolicy (defaultPolicy r) (ou_Name p) (ou_GrowthBuffer p) (ou_MinimumBudget p)
       (ou_RoundingIncrement p)"

section \<open>Statistics analyzer (package analyzer)\<close>

text \<open>
  The accumulation loop of \<open>CalculateStatistics\<close>: the running sum, peak and minimum
  over the monthly costs.
\<close>

fun statsLoop :: "MonthlyCost list \<Rightarrow> real \<times> real \<times> real \<Rightarrow> real \<times> real \<times> real" where
  "statsLoop [] (sm, peak, mn) = (sm, peak, mn)"
| "statsLoop (c # cs) (sm, peak, mn) =
     statsLoop cs
       (sm + Amount c,
        (if Amount c > peak then Amount c else peak),
        (if Amount c < mn then Amount c else mn))"

text \<open>
  The regression loop of \<open>calculateTrend\<close>: \<open>i\<close> is the index of the next month, the
  tuple holds \<open>sumX\<close>, \<open>sumY\<close>, \<open>sumXY\<close> and \<open>sumX2\<close>.
\<close>

fun trendLoop ::
  "nat \<Rightarrow> MonthlyCost list \<Rightarrow> real \<times> real \<times> real \<times> real \<Rightarrow> real \<times> real \<times> real \<times> real" where
  "trendLoop i [] (sumX, sumY, sumXY, sumX2) = (sumX, sumY, sumXY, sumX2)"
| "trendLoop i (c # cs) (sumX, sumY, sumXY, sumX2) =
     trendLoop (Suc i) cs
       (sumX + real i, sumY + Amount c, sumXY + real i * Amount c, sumX2 + real i * real i)"

definition calculateTrend :: "MonthlyCost list \<Rightarrow> Trend" where
  "calculateTrend monthlyCosts =
     (if length monthlyCosts < 2 then TrendStable
      else
        (let n = real (length monthlyCosts) in
         case trendLoop 0 monthlyCosts (0, 0, 0, 0) of
           (sumX, sumY, sumXY, sumX2) \<Rightarrow>
             (let numerator = n * sumXY - sumX * sumY;
                  denominator = n * sumX2 - sumX * sumX
              in if denominator = 0 then TrendStable
                 else
                   (let slope = numerator / denominator;
                        threshold = 0.05 * (sumY / n)
                    in if \<bar>slope\<bar> < threshold then TrendStable
                       else if slope > 0 then TrendIncreasing
                       else TrendDecreasing))))"

definition CalculateStatistics :: "AccountCostData option \<Rightarrow> go_error + SpendStatistics" where
  "CalculateStatistics costData =
     (case costData of
        None \<Rightarrow> Inl (Errorf ''cost data cannot be nil'')
      | Some cd \<Rightarrow>
        (case cost_Error cd of
           Some e \<Rightarrow> Inl (Wrap ''cost data contains error: '' e)
         | None \<Rightarrow>
           (let stats = \<lparr>st_AccountID = cost_AccountID cd, st_AccountName = cost_AccountName cd,
                           AverageMonthlySpend = 0, PeakMonthlySpend = 0, MinMonthlySpend = 0,
                           CurrentMonthSpend = None, st_Trend = TrendStable, MonthsAnalyzed = 0\<rparr>
            in case MonthlyCosts cd of
                 [] \<Rightarrow> Inr stats
               | c0 # rest \<Rightarrow>
                 (case statsLoop (MonthlyCosts cd) (0, Amount c0, Amount c0) of
                    (sm, peak, mn) \<Rightarrow>
                      (let count = length (MonthlyCosts cd) in
                       Inr (stats\<lparr>AverageMonthlySpend := sm / real count,
                                  PeakMonthlySpend := peak,
                                  MinMonthlySpend := mn,
                                  MonthsAnalyzed := int count,
                                  CurrentMonthSpend := Some (Amount (last (MonthlyCosts cd))),
                                  st_Trend := calculateTrend (MonthlyCosts cd)\<rparr>))))))"

definition CompareToBudget ::
  "SpendStatistics option \<Rightarrow> BudgetConfig option \<Rightarrow> go_error + BudgetComparison" where
  "CompareToBudget statistics budgetConfig =
     (case statistics of
        None \<Rightarrow> Inl (Errorf ''statistics cannot be nil'')
      | Some st \<Rightarrow>
        (let comparison = \<lparr>cmp_AccountID = st_AccountID st, cmp_AccountName = st_AccountName st,
                             cmp_CurrentBudget = None, cmp_AverageSpend = AverageMonthlySpend st,
                             cmp_PeakSpend = PeakMonthlySpend st, UtilizationPercent = None,
                             Status = StatusUnset\<rparr>
         in case budgetConfig of
              None \<Rightarrow> Inr (comparison\<lparr>Status := StatusNoBudget\<rparr>)
            | Some bc \<Rightarrow>
              (let comparison = comparison\<lparr>cmp_CurrentBudget := Some (LimitAmount bc)\<rparr> in
               if LimitAmount bc > 0 then
                 (let utilization = (AverageMonthlySpend st / LimitAmount bc) * 100;
                      comparison = comparison\<lparr>UtilizationPercent := Some utilization\<rparr>
                  in if utilization > 100 then Inr (comparison\<lparr>Status := StatusOverBudget\<rparr>)
                     else if utilization < 50 then Inr (comparison\<lparr>Status := StatusUnderUtilized\<rparr>)
                     else Inr (comparison\<lparr>Status := StatusAppropriate\<rparr>))
               else Inr (comparison\<lparr>Status := StatusNoBudget\<rparr>))))"

section \<open>Recommendation engine (package recommender)\<close>

text \<open>
  \<open>math.Round\<close> rounds to the nearest integer, halves away from zero; \<open>math.Abs\<close> is
  the absolute value.
\<close>

definition math_Round :: "real \<Rightarrow> real" where
  "math_Round x = (if x < 0 then - of_int \<lfloor>- x + 1 / 2\<rfloor> else of_int \<lfloor>x + 1 / 2\<rfloor>)"

definition math_Abs :: "real \<Rightarrow> real" where
  "math_Abs x = \<bar>x\<bar>"

definition roundToIncrement :: "real \<Rightarrow> real \<Rightarrow> real" where
  "roundToIncrement v increment =
     (if increment = 0 then v else math_Round (v / increment) * increment)"

definition determinePriority :: "BudgetComparison \<Rightarrow> real \<Rightarrow> Priority" where
  "determinePriority comparison adjustmentPercent =
     (let absAdjustment = math_Abs adjustmentPercent in
      if Status comparison = StatusOverBudget \<or> absAdjustment > 50 then PriorityHigh
      else if absAdjustment > 20 then PriorityMedium
      else PriorityLow)"

definition generateJustification :: "SpendStatistics \<Rightarrow> real \<Rightarrow> real \<Rightarrow> Justification" where
  "generateJustification statistics recommendedBudget growthBuffer =
     (if MonthsAnalyzed statistics = 0 then NoHistoricalData recommendedBudget
      else
        (let baseCalculation = PeakMonthlySpend statistics * (1 + growthBuffer / 100) in
         BasedOnAnalysis (MonthsAnalyzed statistics) (AverageMonthlySpend statistics)
           (PeakMonthlySpend statistics) (1 + growthBuffer / 100) baseCalculation
           (if math_Abs (baseCalculation - recommendedBudget) > 0.01
            then Some recommendedBudget else None)
           (case st_Trend statistics of
              TrendIncreasing \<Rightarrow> RemarkIncreasing
            | TrendDecreasing \<Rightarrow> RemarkDecreasing
            | TrendStable \<Rightarrow> NoRemark)))"

definition GenerateRecommendationWithPolicy ::
  "BudgetComparison option \<Rightarrow> SpendStatistics option \<Rightarrow> RecommendationPolicy
     \<Rightarrow> go_error + BudgetRecommendation" where
  "GenerateRecommendationWithPolicy comparison statistics policy =
     (case comparison of
        None \<Rightarrow> Inl (Errorf ''comparison cannot be nil'')
      | Some cmp \<Rightarrow>
        (case statistics of
           None \<Rightarrow> Inl (Errorf ''statistics cannot be nil'')
         | Some st \<Rightarrow>
           (let growthBuffer = (if GrowthBuffer policy = 0 then 20 else GrowthBuffer policy);
                raw = PeakMonthlySpend st * (1 + growthBuffer / 100);
                floored = (if raw < MinimumBudget policy then MinimumBudget policy else raw);
                recommendedBudget =
                  (if RoundingIncrement policy > 0
                   then roundToIncrement floored (RoundingIncrement policy) else floored);
                adjustment =
                  (case cmp_CurrentBudget cmp of
                     Some cur \<Rightarrow>
                       if cur > 0 then ((recommendedBudget - cur) / cur) * 100 else 100
                   | None \<Rightarrow> 100)
            in Inr \<lparr>rec_AccountID = cmp_AccountID cmp, rec_AccountName = cmp_AccountName cmp,
                     rec_CurrentBudget = cmp_CurrentBudget cmp,
                     RecommendedBudget = recommendedBudget,
                     rec_AverageSpend = cmp_AverageSpend cmp, rec_PeakSpend = cmp_PeakSpend cmp,
                     AdjustmentPercent = adjustment,
                     rec_Priority = determinePriority cmp adjustment,
                     rec_Justification = generateJustification st recommendedBudget growthBuffer,
                     rec_BudgetAccessStatus = None,
                     PolicyName = Name policy\<rparr>)))"

definition GenerateRecommendation ::
  "RecommendationPolicy \<Rightarrow> BudgetComparison option \<Rightarrow> SpendStatistics option
     \<Rightarrow> go_error + BudgetRecommendation" where
  "GenerateRecommendation recommenderPolicy comparison statistics =
     GenerateRecommendationWithPolicy comparison statistics recommenderPolicy"

text \<open>
  \<open>PrioritizeRecommendations\<close> copies its argument into a fresh slice \<open>sorted\<close> and
  hands that slice to \<open>sort.Slice\<close> of Go's standard library, with the closure below as
  \<open>less\<close>. The library function is a parameter of the model: its documentation promises
  a slice sorted with respect to \<open>less\<close> and states that the sort is not guaranteed to
  be stable. \<open>sort_Slice_contract\<close> is that promise, for one \<open>less\<close>. The two slices
  of the function are the fields of \<open>Prioritize_vars\<close>.
\<close>

type_synonym 'a sort_Slice = "('a \<Rightarrow> 'a \<Rightarrow> bool) \<Rightarrow> 'a list \<Rightarrow> 'a list"

definition sort_Slice_contract :: "'a sort_Slice \<Rightarrow> ('a \<Rightarrow> 'a \<Rightarrow> bool) \<Rightarrow> bool" where
  "sort_Slice_contract srt lt =
     (\<forall>xs. mset (srt lt xs) = mset xs \<and> sorted_wrt (\<lambda>a b. \<not> lt b a) (srt lt xs))"

definition adjustmentLess :: "BudgetRecommendation \<Rightarrow> BudgetRecommendation \<Rightarrow> bool" where
  "adjustmentLess a b = (math_Abs (AdjustmentPercent a) > math_Abs (AdjustmentPercent b))"

record Prioritize_vars =
  var_recommendations :: "BudgetRecommendation list"
  var_sorted :: "BudgetRecommendation list"

definition PrioritizeRecommendations_run ::
  "BudgetRecommendation sort_Slice \<Rightarrow> BudgetRecommendation list \<Rightarrow> Prioritize_vars" where
  "PrioritizeRecommendations_run srt recommendations =
     (let s0 = \<lparr>var_recommendations = recommendations, var_sorted = recommendations\<rparr>;
          s1 = s0\<lparr>var_sorted := srt adjustmentLess (var_sorted s0)\<rparr>
      in s1)"

definition PrioritizeRecommendations ::
  "BudgetRecommendation sort_Slice \<Rightarrow> BudgetRecommendation list \<Rightarrow> BudgetRecommendation list" where
  "PrioritizeRecommendations srt recommendations =
     var_sorted (PrioritizeRecommendations_run srt recommendations)"

text \<open>
  Two sorting functions that meet the contract, used as instances of the parameter.
  \<open>insertionSort\<close> is the insertion sort \<open>sort.Slice\<close> runs on short slices: each
  element in turn moves left while it is \<open>less\<close> than its left neighbour
  (\<open>insertLeft\<close> works on the reversed prefix, nearest neighbour first).
  \<open>reverseThenSort\<close> reverses the slice before sorting it.
\<close>

fun insertLeft :: "('a \<Rightarrow> 'a \<Rightarrow> bool) \<Rightarrow> 'a \<Rightarrow> 'a list \<Rightarrow> 'a list" where
  "insertLeft lt x [] = [x]"
| "insertLeft lt x (y # ys) = (if lt x y then y # insertLeft lt x ys else x # y # ys)"

definition insertionSort :: "'a sort_Slice" where
  "insertionSort lt xs = rev (foldl (\<lambda>prefix x. insertLeft lt x prefix) [] xs)"


section \<open>Cost Explorer client (package costexplorer)\<close>

record Client =
  maxRetries :: int
  backoffMs :: int

text \<open>
  Go's \<open>%\<close> and \<open>/\<close> on integers truncate towards zero, and so does the conversion of
  a \<open>float64\<close> to an integer type. \<open>math.Pow(2, float64(attempt))\<close> is \<open>2\<close> to an
  integer power.
\<close>

definition go_quot :: "int \<Rightarrow> int \<Rightarrow> int" where
  "go_quot a b = sgn a * sgn b * (\<bar>a\<bar> div \<bar>b\<bar>)"

definition go_rem :: "int \<Rightarrow> int \<Rightarrow> int" where
  "go_rem a b = a - go_quot a b * b"

definition go_trunc :: "real \<Rightarrow> int" where
  "go_trunc x = (if x < 0 then \<lceil>x\<rceil> else \<lfloor>x\<rfloor>)"

definition Millisecond :: int where
  "Millisecond = 1000000"

definition Milliseconds :: "int \<Rightarrow> int" where
  "Milliseconds d = go_quot d 1000000"

text \<open>
  \<open>calculateBackoff\<close> reads the clock for its jitter; \<open>unixNano\<close> is the value
  \<open>time.Now().UnixNano()\<close> returned. The result is a \<open>time.Duration\<close>, a count of
  nanoseconds.
\<close>

definition calculateBackoff :: "Client \<Rightarrow> int \<Rightarrow> int \<Rightarrow> int" where
  "calculateBackoff c attempt unixNano =
     (let backoff0 = real_of_int (backoffMs c) * power_int 2 attempt;
          backoff1 = (if backoff0 > 60000 then 60000 else backoff0);
          jitter = backoff1 * 0.25;
          backoff2 = backoff1 - jitter + (2 * jitter * real_of_int (go_rem unixNano 1000) / 1000)
      in go_trunc backoff2 * Millisecond)"

text \<open>
  The remote calls are parameters. \<open>cost_api\<close> is the outcome of the retry loop of
  \<open>GetAccountCosts\<close> for one account: the error that ended it, or the parsed monthly
  costs. \<open>budget_api\<close> is what \<open>GetAccountBudgets\<close> returns for one account (its error
  result is always nil).
\<close>

type_synonym cost_api = "string \<Rightarrow> string \<Rightarrow> go_error + MonthlyCost list"

type_synonym budget_api = "string \<Rightarrow> string \<Rightarrow> BudgetConfig list"

definition GetAccountCosts ::
  "cost_api \<Rightarrow> string \<Rightarrow> string \<Rightarrow> AccountCostData \<times> go_error option" where
  "GetAccountCosts api accountID accountName =
     (let result = \<lparr>cost_AccountID = accountID, cost_AccountName = accountName,
                      MonthlyCosts = [], cost_Error = None\<rparr>
      in case api accountID accountName of
           Inl err \<Rightarrow>
             (let e = Wrap ''failed to get cost data: '' err
              in (result\<lparr>cost_Error := Some e\<rparr>, Some e))
         | Inr costs \<Rightarrow> (result\<lparr>MonthlyCosts := costs\<rparr>, None))"

text \<open>
  The worker pool of \<open>GetAllAccountsCostsWithProgress\<close>: every index of \<open>accounts\<close> is
  sent on the job channel once, and the worker that receives it writes \<open>results[idx]\<close>
  and no other slot, so with at least one worker the result is the list of the
  per-account outcomes in the order of \<open>accounts\<close>. With \<open>concurrency \<le> 0\<close> no worker is
  started and every slot keeps its nil pointer.
\<close>

definition costWorker :: "cost_api \<Rightarrow> AccountInfo \<Rightarrow> AccountCostData" where
  "costWorker api account =
     (case GetAccountCosts api (acct_ID account) (acct_Name account) of
        (costData, Some err) \<Rightarrow>
          \<lparr>cost_AccountID = acct_ID account, cost_AccountName = acct_Name account,
           MonthlyCosts = [], cost_Error = Some err\<rparr>
      | (costData, None) \<Rightarrow> costData)"

definition GetAllAccountsCostsWithProgress ::
  "cost_api \<Rightarrow> AccountInfo list \<Rightarrow> int \<Rightarrow> AccountCostData option list" where
  "GetAllAccountsCostsWithProgress api accounts concurrency =
     (if concurrency \<le> 0 then replicate (length accounts) None
      else map (\<lambda>account. Some (costWorker api account)) accounts)"

section \<open>Budgets client (internal/budgets/client.go)\<close>

definition GetAllAccountsBudgetsWithProgress ::
  "budget_api \<Rightarrow> AccountInfo list \<Rightarrow> int \<Rightarrow> (string \<rightharpoonup> BudgetConfig list)" where
  "GetAllAccountsBudgetsWithProgress api accounts concurrency =
     (if concurrency \<le> 0 then Map.empty
      else foldl (\<lambda>results account.
                    results(acct_ID account \<mapsto> api (acct_ID account) (acct_Name account)))
             Map.empty accounts)"

section \<open>The analysis run (internal/cmd/root.go)\<close>

datatype run_error = NoAccountsToAnalyze | AnalysisCancelled | NilPointerDereference

definition appendError :: "AnalysisResult \<Rightarrow> AccountCostData \<Rightarrow> go_error \<Rightarrow> AnalysisResult" where
  "appendError result cost err =
     result\<lparr>Errors := Errors result @
       [\<lparr>ae_AccountID = cost_AccountID cost, ae_AccountName = cost_AccountName cost,
         ae_Error = err\<rparr>]\<rparr>"

text \<open>
  One pass of the body of the loop \<open>for _, cost := range costData\<close> of \<open>runAnalysis\<close>,
  after the cancellation check, for a \<open>cost\<close> that is not nil. Every \<open>continue\<close> is a
  branch that returns the result with one error appended.
\<close>

definition analyzeAccount ::
  "Resolver \<Rightarrow> (string \<rightharpoonup> BudgetConfig list) \<Rightarrow> AnalysisResult \<Rightarrow> AccountCostData
     \<Rightarrow> AnalysisResult" where
  "analyzeAccount resolver budgetData result cost =
     (case cost_Error cost of
        Some e \<Rightarrow> appendError result cost e
      | None \<Rightarrow>
        (case CalculateStatistics (Some cost) of
           Inl err \<Rightarrow> appendError result cost err
         | Inr stats \<Rightarrow>
           (case (case budgetData (cost_AccountID cost) of
                    Some (b # bs) \<Rightarrow>
                      (Some b, AccessStatus b,
                       (if AccessStatus b = BudgetAccessSuccess
                        then result\<lparr>AccountsWithBudgets := AccountsWithBudgets result + 1\<rparr>
                        else result\<lparr>AccountsWithoutBudgets := AccountsWithoutBudgets result + 1\<rparr>))
                  | _ \<Rightarrow>
                      (None, BudgetAccessNotFound,
                       result\<lparr>AccountsWithoutBudgets := AccountsWithoutBudgets result + 1\<rparr>)) of
              (budgetConfig, budgetAccessStatus, result1) \<Rightarrow>
                (case CompareToBudget (Some stats) budgetConfig of
                   Inl err \<Rightarrow> appendError result1 cost err
                 | Inr comparison \<Rightarrow>
                   (let accountPolicy = ResolvePolicy resolver (cost_AccountID cost) in
                    case GenerateRecommendationWithPolicy (Some comparison) (Some stats)
                           accountPolicy of
                      Inl err \<Rightarrow> appendError result1 cost err
                    | Inr recommendation \<Rightarrow>
                        result1\<lparr>Recommendations := Recommendations result1 @
                                   [recommendation\<lparr>rec_BudgetAccessStatus :=
                                      Some budgetAccessStatus\<rparr>],
                                 AccountsAnalyzed := AccountsAnalyzed result1 + 1\<rparr>)))))"

text \<open>
  The loop itself. \<open>ctxDone i\<close> says whether the context is cancelled when iteration
  \<open>i\<close> checks it; a cancelled run returns an error and no result. Reading \<open>cost.Error\<close>
  through a nil pointer panics.
\<close>

fun analysisLoop ::
  "Resolver \<Rightarrow> (string \<rightharpoonup> BudgetConfig list) \<Rightarrow> (nat \<Rightarrow> bool) \<Rightarrow> nat
     \<Rightarrow> AccountCostData option list \<Rightarrow> AnalysisResult \<Rightarrow> run_error + AnalysisResult" where
  "analysisLoop resolver budgetData ctxDone i [] result = Inr result"
| "analysisLoop resolver budgetData ctxDone i (c # cs) result =
     (if ctxDone i then Inl AnalysisCancelled
      else case c of
             None \<Rightarrow> Inl NilPointerDereference
           | Some cost \<Rightarrow>
               analysisLoop resolver budgetData ctxDone (Suc i) cs
                 (analyzeAccount resolver budgetData result cost))"

text \<open>
  \<open>runAnalysis\<close> from the point where the list of accounts to analyse is fixed: the
  check for an empty list, the two fetches, the loop and the final ordering of the
  recommendations.
\<close>

definition runAnalysis ::
  "BudgetRecommendation sort_Slice \<Rightarrow> Resolver \<Rightarrow> cost_api \<Rightarrow> budget_api \<Rightarrow> int
     \<Rightarrow> (nat \<Rightarrow> bool) \<Rightarrow> AccountInfo list \<Rightarrow> run_error + AnalysisResult" where
  "runAnalysis srt resolver costApi budgetApi concurrency ctxDone accounts =
     (if length accounts = 0 then Inl NoAccountsToAnalyze
      else
        (let costData = GetAllAccountsCostsWithProgress costApi accounts concurrency;
             budgetData = GetAllAccountsBudgetsWithProgress budgetApi accounts concurrency;
             result0 = \<lparr>AccountsAnalyzed = 0, AccountsWithBudgets = 0,
                        AccountsWithoutBudgets = 0, Recommendations = [], Errors = []\<rparr>
         in case analysisLoop resolver budgetData ctxDone 0 costData result0 of
              Inl e \<Rightarrow> Inl e
            | Inr result \<Rightarrow>
                Inr (result\<lparr>Recommendations :=
                       PrioritizeRecommendations srt (Recommendations result)\<rparr>)))"

section \<open>Notions of the specification\<close>

text \<open>
  The capped exponential backoff \<open>min(60s, B * 2^attempt)\<close> in milliseconds, around
  which the delay is jittered.
\<close>

definition cappedBackoff :: "Client \<Rightarrow> int \<Rightarrow> real" where
  "cappedBackoff c attempt = min 60000 (real_of_int (backoffMs c) * power_int 2 attempt)"

text \<open>
  The quantities the specification of the trend speaks of, defined independently of the
  loop of \<open>calculateTrend\<close>: the arithmetic mean of the spends, the mean of the 0-based
  month indices, and the ordinary-least-squares coefficient of spend against month index
  (covariance of index and spend over the variance of the index).
  \<open>regressionDenominator\<close> is the denominator \<open>calculateTrend\<close> tests against zero.
\<close>

definition meanSpend :: "MonthlyCost list \<Rightarrow> real" where
  "meanSpend cs = (\<Sum>i<length cs. Amount (cs ! i)) / real (length cs)"

definition meanIndex :: "MonthlyCost list \<Rightarrow> real" where
  "meanIndex cs = (\<Sum>i<length cs. real i) / real (length cs)"

definition olsSlope :: "MonthlyCost list \<Rightarrow> real" where
  "olsSlope cs =
     (\<Sum>i<length cs. (real i - meanIndex cs) * (Amount (cs ! i) - meanSpend cs)) /
     (\<Sum>i<length cs. (real i - meanIndex cs) * (real i - meanIndex cs))"

definition regressionDenominator :: "MonthlyCost list \<Rightarrow> real" where
  "regressionDenominator cs =
     (case trendLoop 0 cs (0, 0, 0, 0) of
        (sumX, sumY, sumXY, sumX2) \<Rightarrow> real (length cs) * sumX2 - sumX * sumX)"

text \<open>
  What one pass of the analysis loop adds to the result for an account: exactly one
  recommendation and no error, or exactly one error record and no recommendation.
  \<open>entryIDs\<close> collects the account ids of all entries of a result, with multiplicity.
\<close>

definition oneMoreRecommendation :: "AnalysisResult \<Rightarrow> AnalysisResult \<Rightarrow> string \<Rightarrow> bool" where
  "oneMoreRecommendation result result' accountID =
     (\<exists>r. Recommendations result' = Recommendations result @ [r] \<and>
          rec_AccountID r = accountID \<and> Errors result' = Errors result)"

definition oneMoreError :: "AnalysisResult \<Rightarrow> AnalysisResult \<Rightarrow> string \<Rightarrow> bool" where
  "oneMoreError result result' accountID =
     (\<exists>e. Errors result' = Errors result @ [e] \<and>
          ae_AccountID e = accountID \<and> Recommendations result' = Recommendations result)"

definition entryIDs :: "AnalysisResult \<Rightarrow> string multiset" where
  "entryIDs result =
     mset (map rec_AccountID (Recommendations result)) + mset (map ae_AccountID (Errors result))"

section \<open>Concrete inputs\<close>

text \<open>
  A resolver with one rule of each kind, all three matching account \<open>123456789012\<close>
  (the values follow the tests of the resolver), and the operations that remove the
  rules of one kind or the loaded metadata.
\<close>

definition exampleDefault :: RecommendationPolicy where
  "exampleDefault =
     \<lparr>Name = ''Default'', GrowthBuffer = 20, MinimumBudget = 10, RoundingIncrement = 10\<rparr>"

definition exampleAccountRule :: AccountPolicy where
  "exampleAccountRule =
     \<lparr>ap_Account = ''123456789012'', ap_Name = ''Critical Account'',
      ap_GrowthBuffer = 10, ap_MinimumBudget = 100, ap_RoundingIncrement = 0\<rparr>"

definition exampleTagRule :: TagPolicy where
  "exampleTagRule =
     \<lparr>TagKey = ''Environment'', TagValue = ''production'', tp_Name = ''Production Tag'',
      tp_GrowthBuffer = 25, tp_MinimumBudget = 0, tp_RoundingIncrement = 50\<rparr>"

definition exampleOURule :: OUPolicy where
  "exampleOURule =
     \<lparr>ou_OU = ''ou-prod-12345678'', ou_Name = ''Production OU'',
      ou_GrowthBuffer = 15, ou_MinimumBudget = 50, ou_RoundingIncrement = 0\<rparr>"

definition exampleResolver :: Resolver where
  "exampleResolver =
     \<lparr>config = \<lparr>OUPolicies = [exampleOURule], AccountPolicies = [exampleAccountRule],
                 TagPolicies = [exampleTagRule]\<rparr>,
      defaultPolicy = exampleDefault,
      accountToOU = [''123456789012'' \<mapsto> ''ou-prod-12345678''],
      accountToTags = [''123456789012'' \<mapsto> [''Environment'' \<mapsto> ''production'']]\<rparr>"

definition withoutAccountRules :: "Resolver \<Rightarrow> Resolver" where
  "withoutAccountRules r = r\<lparr>config := (config r)\<lparr>AccountPolicies := []\<rparr>\<rparr>"

definition withoutTagRules :: "Resolver \<Rightarrow> Resolver" where
  "withoutTagRules r = r\<lparr>config := (config r)\<lparr>TagPolicies := []\<rparr>\<rparr>"

definition withoutOURules :: "Resolver \<Rightarrow> Resolver" where
  "withoutOURules r = r\<lparr>config := (config r)\<lparr>OUPolicies := []\<rparr>\<rparr>"

definition withoutMetadata :: "Resolver \<Rightarrow> Resolver" where
  "withoutMetadata r = r\<lparr>accountToOU := Map.empty, accountToTags := Map.empty\<rparr>"

text \<open>Monthly costs with the given amounts, and a recommendation with a given adjustment.\<close>

definition costsOf :: "real list \<Rightarrow> MonthlyCost list" where
  "costsOf amounts = map (\<lambda>a. \<lparr>Month = [], Amount = a\<rparr>) amounts"


text \<open>
  A run over three accounts: the first has four months of cost data and a budget of 300,
  the cost fetch of the second fails, the third has neither cost data nor a budget.
\<close>

definition exampleAccounts :: "AccountInfo list" where
  "exampleAccounts =
     [\<lparr>acct_ID = ''123456789012'', acct_Alias = [], acct_Email = [], acct_Name = ''prod''\<rparr>,
      \<lparr>acct_ID = ''234567890123'', acct_Alias = [], acct_Email = [], acct_Name = ''dev''\<rparr>,
      \<lparr>acct_ID = ''345678901234'', acct_Alias = [], acct_Email = [], acct_Name = ''new''\<rparr>]"

definition exampleCostApi :: cost_api where
  "exampleCostApi accountID accountName =
     (if accountID = ''123456789012''
      then Inr [\<lparr>Month = ''2025-01'', Amount = 100\<rparr>, \<lparr>Month = ''2025-02'', Amount = 150\<rparr>,
                \<lparr>Month = ''2025-03'', Amount = 200\<rparr>, \<lparr>Month = ''2025-04'', Amount = 250\<rparr>]
      else if accountID = ''234567890123'' then Inl (Errorf ''AccessDeniedException'')
      else Inr [])"

definition exampleBudgetApi :: budget_api where
  "exampleBudgetApi accountID accountName =
     (if accountID = ''123456789012''
      then [\<lparr>bc_AccountID = accountID, bc_AccountName = accountName, BudgetName = ''monthly'',
              LimitAmount = 300, TimeUnit = ''MONTHLY'', HasForecasted = False, HasActual = True,
              Subscribers = [], AccessStatus = BudgetAccessSuccess, AccessError = None\<rparr>]
      else [\<lparr>bc_AccountID = accountID, bc_AccountName = accountName, BudgetName = [],
              LimitAmount = 0, TimeUnit = [], HasForecasted = False, HasActual = False,
              Subscribers = [], AccessStatus = BudgetAccessNotFound, AccessError = None\<rparr>])"

section \<open>Policy resolution\<close>

lemma mergePolicy_fields:
  "Name (mergePolicy b name g m r) = (if name \<noteq> [] then name else Name b)"
  "GrowthBuffer (mergePolicy b name g m r) = (if g > 0 then g else GrowthBuffer b)"
  "MinimumBudget (mergePolicy b name g m r) = (if m > 0 then m else MinimumBudget b)"
  "RoundingIncrement (mergePolicy b name g m r) = (if r > 0 then r else RoundingIncrement b)"
  by (simp_all add: mergePolicy_def mergePolicy_run_def Let_def)

text \<open>Each loop of \<open>ResolvePolicy\<close> returns the merge of the first rule that matches.\<close>

lemma accountLoop_find:
  "accountLoop d a ps =
     map_option (\<lambda>p. mergePolicy d (ap_Name p) (ap_GrowthBuffer p) (ap_MinimumBudget p)
                       (ap_RoundingIncrement p))
       (find (accountRuleMatches a) ps)"
  by (induction ps) (simp_all add: accountRuleMatches_def)

lemma tagLoop_find:
  "tagLoop d tags ps =
     map_option (\<lambda>p. mergePolicy d (tp_Name p) (tp_GrowthBuffer p) (tp_MinimumBudget p)
                       (tp_RoundingIncrement p))
       (find (\<lambda>p. tags (TagKey p) = Some (TagValue p)) ps)"
  by (induction ps) (auto split: option.splits)

lemma ouLoop_find:
  "ouLoop d ou ps =
     map_option (\<lambda>p. mergePolicy d (ou_Name p) (ou_GrowthBuffer p) (ou_MinimumBudget p)
                       (ou_RoundingIncrement p))
       (find (\<lambda>p. ou_OU p = ou) ps)"
  by (induction ps) simp_all

lemma find_tagRuleMatches_None:
  "accountToTags r a = None \<Longrightarrow> find (tagRuleMatches r a) ps = None"
  by (induction ps) (simp_all add: tagRuleMatches_def)

lemma find_tagRuleMatches_Some:
  "accountToTags r a = Some tags \<Longrightarrow>
   find (tagRuleMatches r a) ps = find (\<lambda>p. tags (TagKey p) = Some (TagValue p)) ps"
  by (induction ps) (simp_all add: tagRuleMatches_def)

lemma find_ouRuleMatches_None:
  "accountToOU r a = None \<Longrightarrow> find (ouRuleMatches r a) ps = None"
  by (induction ps) (simp_all add: ouRuleMatches_def)

lemma find_ouRuleMatches_Some:
  "accountToOU r a = Some ou \<Longrightarrow>
   find (ouRuleMatches r a) ps = find (\<lambda>p. ou_OU p = ou) ps"
  by (induction ps) (auto simp add: ouRuleMatches_def)

lemma ResolvePolicy_find:
  "ResolvePolicy r a =
     (case find (accountRuleMatches a) (AccountPolicies (config r)) of
        Some p \<Rightarrow> accountRulePolicy r p
      | None \<Rightarrow>
        (case find (tagRuleMatches r a) (TagPolicies (config r)) of
           Some p \<Rightarrow> tagRulePolicy r p
         | None \<Rightarrow>
           (case find (ouRuleMatches r a) (OUPolicies (config r)) of
              Some p \<Rightarrow> ouRulePolicy r p
            | None \<Rightarrow> defaultPolicy r)))"
  by (cases "accountToTags r a"; cases "accountToOU r a")
     (auto simp add: ResolvePolicy_def accountLoop_find tagLoop_find ouLoop_find
       find_tagRuleMatches_None find_tagRuleMatches_Some find_ouRuleMatches_None
       find_ouRuleMatches_Some accountRulePolicy_def tagRulePolicy_def ouRulePolicy_def
       split: option.splits)

lemmas example_defs =
  exampleDefault_def exampleAccountRule_def exampleTagRule_def exampleOURule_def
  exampleResolver_def withoutAccountRules_def withoutTagRules_def withoutOURules_def
  withoutMetadata_def accountRuleMatches_def tagRuleMatches_def ouRuleMatches_def
  accountRulePolicy_def tagRulePolicy_def ouRulePolicy_def mergePolicy_def
  mergePolicy_run_def Let_def

text \<open>
  Claim C4. For every resolver and account: when an Account rule matches, the result is
  the first matching Account rule merged onto the default policy; when none does and a
  Tag rule matches, the first matching Tag rule; when neither does and an OU rule
  matches, the first matching OU rule; when no rule matches, the default policy; and
  with no Account rule matching and no metadata loaded for the account (neither tags
  nor OU), the default policy as well.
\<close>

theorem ResolvePolicy_priority:
  "(find (accountRuleMatches a) (AccountPolicies (config r)) = Some ap \<longrightarrow>
      ResolvePolicy r a = accountRulePolicy r ap) \<and>
   (find (accountRuleMatches a) (AccountPolicies (config r)) = None \<and>
    find (tagRuleMatches r a) (TagPolicies (config r)) = Some tp \<longrightarrow>
      ResolvePolicy r a = tagRulePolicy r tp) \<and>
   (find (accountRuleMatches a) (AccountPolicies (config r)) = None \<and>
    find (tagRuleMatches r a) (TagPolicies (config r)) = None \<and>
    find (ouRuleMatches r a) (OUPolicies (config r)) = Some op \<longrightarrow>
      ResolvePolicy r a = ouRulePolicy r op) \<and>
   (find (accountRuleMatches a) (AccountPolicies (config r)) = None \<and>
    find (tagRuleMatches r a) (TagPolicies (config r)) = None \<and>
    find (ouRuleMatches r a) (OUPolicies (config r)) = None \<longrightarrow>
      ResolvePolicy r a = defaultPolicy r) \<and>
   (find (accountRuleMatches a) (AccountPolicies (config r)) = None \<and>
    accountToTags r a = None \<and> accountToOU r a = None \<longrightarrow>
      ResolvePolicy r a = defaultPolicy r)"
  by (simp add: ResolvePolicy_find find_tagRuleMatches_None find_ouRuleMatches_None)

text \<open>
  The theorem at the example resolver: with all three rules the Account rule decides;
  with the Account rule removed the Tag rule; with that removed too the OU rule; with
  no rule left, or with the Account rule removed and no metadata, the default policy.
\<close>

theorem ResolvePolicy_priority_witness:
  "ResolvePolicy exampleResolver ''123456789012'' =
     \<lparr>Name = ''Critical Account'', GrowthBuffer = 10, MinimumBudget = 100,
      RoundingIncrement = 10\<rparr> \<and>
   ResolvePolicy (withoutAccountRules exampleResolver) ''123456789012'' =
     \<lparr>Name = ''Production Tag'', GrowthBuffer = 25, MinimumBudget = 10,
      RoundingIncrement = 50\<rparr> \<and>
   ResolvePolicy (withoutTagRules (withoutAccountRules exampleResolver)) ''123456789012'' =
     \<lparr>Name = ''Production OU'', GrowthBuffer = 15, MinimumBudget = 50,
      RoundingIncrement = 10\<rparr> \<and>
   ResolvePolicy (withoutOURules (withoutTagRules (withoutAccountRules exampleResolver)))
     ''123456789012'' = exampleDefault \<and>
   ResolvePolicy (withoutMetadata (withoutAccountRules exampleResolver)) ''123456789012'' =
     exampleDefault"
proof -
  let ?a = "''123456789012''"
  let ?r2 = "withoutAccountRules exampleResolver"
  let ?r3 = "withoutTagRules ?r2"
  let ?r4 = "withoutOURules ?r3"
  let ?r5 = "withoutMetadata ?r2"
  have 1: "ResolvePolicy exampleResolver ?a = accountRulePolicy exampleResolver exampleAccountRule"
    using ResolvePolicy_priority [of ?a exampleResolver exampleAccountRule]
    by (simp add: example_defs)
  have 2: "ResolvePolicy ?r2 ?a = tagRulePolicy ?r2 exampleTagRule"
    using ResolvePolicy_priority [of ?a ?r2 _ exampleTagRule]
    by (simp add: example_defs)
  have 3: "ResolvePolicy ?r3 ?a = ouRulePolicy ?r3 exampleOURule"
    using ResolvePolicy_priority [of ?a ?r3 _ _ exampleOURule]
    by (simp add: example_defs)
  have 4: "ResolvePolicy ?r4 ?a = defaultPolicy ?r4"
    using ResolvePolicy_priority [of ?a ?r4]
    by (simp add: example_defs)
  have 5: "ResolvePolicy ?r5 ?a = defaultPolicy ?r5"
    using ResolvePolicy_priority [of ?a ?r5]
    by (simp add: example_defs)
  show ?thesis
    unfolding 1 2 3 4 5 by (simp add: example_defs)
qed

text \<open>
  Claim C5. \<open>mergePolicy\<close> leaves its \<open>base\<close> as it was; an empty override name keeps
  the base's name and a non-empty one replaces it; a numeric override that is zero or
  negative keeps the base's value and a strictly positive one replaces it.
\<close>

theorem mergePolicy_keeps_base:
  "var_base (mergePolicy_run b name g m r) = b \<and>
   (name = [] \<longrightarrow> Name (mergePolicy b name g m r) = Name b) \<and>
   (name \<noteq> [] \<longrightarrow> Name (mergePolicy b name g m r) = name) \<and>
   (g \<le> 0 \<longrightarrow> GrowthBuffer (mergePolicy b name g m r) = GrowthBuffer b) \<and>
   (g > 0 \<longrightarrow> GrowthBuffer (mergePolicy b name g m r) = g) \<and>
   (m \<le> 0 \<longrightarrow> MinimumBudget (mergePolicy b name g m r) = MinimumBudget b) \<and>
   (m > 0 \<longrightarrow> MinimumBudget (mergePolicy b name g m r) = m) \<and>
   (r \<le> 0 \<longrightarrow> RoundingIncrement (mergePolicy b name g m r) = RoundingIncrement b) \<and>
   (r > 0 \<longrightarrow> RoundingIncrement (mergePolicy b name g m r) = r)"
  by (simp add: mergePolicy_fields) (simp add: mergePolicy_run_def Let_def)

theorem mergePolicy_keeps_base_witness:
  "var_base (mergePolicy_run exampleDefault ''Override'' 30 0 (- 5)) = exampleDefault \<and>
   mergePolicy exampleDefault ''Override'' 30 0 (- 5) =
     \<lparr>Name = ''Override'', GrowthBuffer = 30, MinimumBudget = 10, RoundingIncrement = 10\<rparr> \<and>
   mergePolicy exampleDefault [] 0 50 25 =
     \<lparr>Name = ''Default'', GrowthBuffer = 20, MinimumBudget = 50, RoundingIncrement = 25\<rparr>"
  using mergePolicy_keeps_base [of exampleDefault "''Override''" 30 0 "- 5"]
    mergePolicy_keeps_base [of exampleDefault "[]" 0 50 25]
  by (simp add: exampleDefault_def mergePolicy_def mergePolicy_run_def Let_def)

section \<open>Budget comparison and recommendation\<close>

text \<open>
  Claim C10. For statistics that are present, \<open>CompareToBudget\<close> returns a comparison
  and no error. Without a budget record, or with a limit that is zero or negative, the
  status is no-budget and no utilization percent is set. With a positive limit the
  utilization is average spend / limit * 100, and the status is over-budget exactly
  when the utilization is above 100, under-utilized exactly when it is below 50, and
  appropriate exactly when it lies between 50 and 100.
\<close>

theorem CompareToBudget_status:
  "(\<exists>cmp. CompareToBudget (Some st) budgetConfig = Inr cmp \<and>
      (case budgetConfig of
         None \<Rightarrow> Status cmp = StatusNoBudget \<and> UtilizationPercent cmp = None
       | Some bc \<Rightarrow>
           if LimitAmount bc \<le> 0
           then Status cmp = StatusNoBudget \<and> UtilizationPercent cmp = None
           else UtilizationPercent cmp = Some (AverageMonthlySpend st / LimitAmount bc * 100) \<and>
                (Status cmp = StatusOverBudget \<longleftrightarrow>
                   AverageMonthlySpend st / LimitAmount bc * 100 > 100) \<and>
                (Status cmp = StatusUnderUtilized \<longleftrightarrow>
                   AverageMonthlySpend st / LimitAmount bc * 100 < 50) \<and>
                (Status cmp = StatusAppropriate \<longleftrightarrow>
                   50 \<le> AverageMonthlySpend st / LimitAmount bc * 100 \<and>
                   AverageMonthlySpend st / LimitAmount bc * 100 \<le> 100)))"
  by (auto simp add: CompareToBudget_def Let_def split: option.splits)

text \<open>
  Claim C7. The priority is High exactly when the status is over-budget or the absolute
  adjustment exceeds 50, Medium exactly when the status is not over-budget and the
  absolute adjustment exceeds 20 but not 50, and Low exactly in the remaining case. An
  over-budget status gives High for every adjustment; an absolute adjustment of 60
  gives High, and without an over-budget status 30 gives Medium and 10 gives Low. The
  priority of a generated recommendation is this function of its comparison and its
  adjustment percent.
\<close>

theorem determinePriority_thresholds:
  "(determinePriority c adj = PriorityHigh \<longleftrightarrow>
      (Status c = StatusOverBudget \<or> \<bar>adj\<bar> > 50)) \<and>
   (determinePriority c adj = PriorityMedium \<longleftrightarrow>
      (Status c \<noteq> StatusOverBudget \<and> 20 < \<bar>adj\<bar> \<and> \<bar>adj\<bar> \<le> 50)) \<and>
   (determinePriority c adj = PriorityLow \<longleftrightarrow>
      (Status c \<noteq> StatusOverBudget \<and> \<bar>adj\<bar> \<le> 20)) \<and>
   determinePriority (c\<lparr>Status := StatusOverBudget\<rparr>) adj = PriorityHigh \<and>
   determinePriority c 60 = PriorityHigh \<and> determinePriority c (- 60) = PriorityHigh \<and>
   determinePriority (c\<lparr>Status := StatusAppropriate\<rparr>) 30 = PriorityMedium \<and>
   determinePriority (c\<lparr>Status := StatusAppropriate\<rparr>) (- 30) = PriorityMedium \<and>
   determinePriority (c\<lparr>Status := StatusAppropriate\<rparr>) 10 = PriorityLow \<and>
   determinePriority (c\<lparr>Status := StatusAppropriate\<rparr>) (- 10) = PriorityLow \<and>
   (case GenerateRecommendationWithPolicy (Some c) (Some s) p of
      Inl e \<Rightarrow> False
    | Inr r \<Rightarrow> rec_Priority r = determinePriority c (AdjustmentPercent r))"
  by (simp add: determinePriority_def math_Abs_def Let_def GenerateRecommendationWithPolicy_def)

text \<open>
  Claim C9. Generating a recommendation returns an error exactly when the comparison
  or the statistics argument is nil; with both present it returns a recommendation,
  whatever the policy.
\<close>

theorem GenerateRecommendation_fails_iff_nil:
  "(isl (GenerateRecommendationWithPolicy comparison statistics policy) \<longleftrightarrow>
      (comparison = None \<or> statistics = None)) \<and>
   (\<exists>r. GenerateRecommendationWithPolicy (Some c) (Some s) policy = Inr r) \<and>
   (\<exists>e. GenerateRecommendationWithPolicy None statistics policy = Inl e) \<and>
   (\<exists>e. GenerateRecommendationWithPolicy comparison None policy = Inl e)"
  by (simp add: GenerateRecommendationWithPolicy_def Let_def split: option.splits)

text \<open>Rounding to an increment: what survives of a lower bound.\<close>

lemma math_Round_ge: "x - 1/2 \<le> math_Round x"
  unfolding math_Round_def by (simp; linarith)

lemma math_Round_of_int [simp]: "math_Round (of_int k) = of_int k"
  unfolding math_Round_def by (simp; linarith)

lemma math_Round_mono: "x \<le> y \<Longrightarrow> math_Round x \<le> math_Round y"
proof -
  assume xy: "x \<le> y"
  consider "y < 0" | "x < 0" "0 \<le> y" | "0 \<le> x" by linarith
  then show ?thesis
  proof cases
    case 1
    then have "x < 0" using xy by simp
    moreover have "\<lfloor>- y + 1 / 2\<rfloor> \<le> \<lfloor>- x + 1 / 2\<rfloor>" using xy by (intro floor_mono) simp
    ultimately show ?thesis using 1 by (simp add: math_Round_def)
  next
    case 2
    have "0 \<le> \<lfloor>1 / 2 - x\<rfloor>" using 2 by simp
    moreover have "0 \<le> \<lfloor>y + 1 / 2\<rfloor>" using 2 by simp
    ultimately have "- real_of_int \<lfloor>1 / 2 - x\<rfloor> \<le> real_of_int \<lfloor>y + 1 / 2\<rfloor>"
      by linarith
    then show ?thesis using 2 by (simp add: math_Round_def)
  next
    case 3
    then have "\<not> y < 0" using xy by simp
    moreover have "\<lfloor>x + 1 / 2\<rfloor> \<le> \<lfloor>y + 1 / 2\<rfloor>" using xy by (intro floor_mono) simp
    ultimately show ?thesis using 3 by (simp add: math_Round_def)
  qed
qed

lemma roundToIncrement_ge:
  assumes "0 < inc"
  shows "v - inc / 2 \<le> roundToIncrement v inc"
proof -
  have "(v / inc - 1 / 2) * inc \<le> math_Round (v / inc) * inc"
    using math_Round_ge [of "v / inc"] assms by (intro mult_right_mono) simp_all
  moreover have "(v / inc - 1 / 2) * inc = v - inc / 2"
    using assms by (simp add: field_simps)
  ultimately show ?thesis using assms by (simp add: roundToIncrement_def)
qed

lemma roundToIncrement_ge_multiple:
  assumes "0 < inc" "of_int k * inc \<le> v"
  shows "of_int k * inc \<le> roundToIncrement v inc"
proof -
  have "of_int k \<le> v / inc" using assms by (simp add: field_simps)
  from math_Round_mono [OF this] have "of_int k \<le> math_Round (v / inc)" by simp
  then have "of_int k * inc \<le> math_Round (v / inc) * inc"
    using assms(1) by (intro mult_right_mono) simp_all
  then show ?thesis using assms(1) by (simp add: roundToIncrement_def)
qed

text \<open>
  The floor that does hold: without rounding the recommended budget is at least the
  minimum budget; with rounding it is at least the minimum less half an increment,
  and at least the minimum when the minimum is a whole multiple of the increment.
\<close>

lemma recommended_budget_floor:
  assumes "GenerateRecommendationWithPolicy (Some c) (Some s) p = Inr r"
  shows "(RoundingIncrement p \<le> 0 \<longrightarrow> MinimumBudget p \<le> RecommendedBudget r) \<and>
         (0 < RoundingIncrement p \<longrightarrow> MinimumBudget p - RoundingIncrement p / 2 \<le> RecommendedBudget r) \<and>
         (0 < RoundingIncrement p \<and> MinimumBudget p = of_int k * RoundingIncrement p \<longrightarrow>
            MinimumBudget p \<le> RecommendedBudget r)"
proof -
  define g where "g = (if GrowthBuffer p = 0 then 20 else GrowthBuffer p)"
  define raw where "raw = PeakMonthlySpend s * (1 + g / 100)"
  define fl where "fl = (if raw < MinimumBudget p then MinimumBudget p else raw)"
  have fl: "MinimumBudget p \<le> fl" by (simp add: fl_def)
  have R: "RecommendedBudget r = (if RoundingIncrement p > 0 then roundToIncrement fl (RoundingIncrement p) else fl)"
    using assms by (auto simp add: GenerateRecommendationWithPolicy_def Let_def fl_def raw_def g_def)
  show ?thesis
  proof (intro conjI impI)
    assume "RoundingIncrement p \<le> 0"
    then show "MinimumBudget p \<le> RecommendedBudget r" using R fl by simp
  next
    assume i: "0 < RoundingIncrement p"
    from roundToIncrement_ge [OF this, of fl] show "MinimumBudget p - RoundingIncrement p / 2 \<le> RecommendedBudget r"
      using R fl i by simp
  next
    assume a: "0 < RoundingIncrement p \<and> MinimumBudget p = of_int k * RoundingIncrement p"
    then have "of_int k * RoundingIncrement p \<le> fl" using fl by simp
    from roundToIncrement_ge_multiple [OF _ this] a show "MinimumBudget p \<le> RecommendedBudget r"
      using R by simp
  qed
qed

text \<open>
  Claim C2. The recommended budget is never less than the minimum budget of the policy,
  for every combination of minimum budget and rounding increment. The first equation is
  the example of the claim (peak 10, growth 20, minimum 100, increment 10: recommended
  100). The second is an input where the code returns less than the minimum: with peak
  10, growth 20, minimum 25 and increment 100 the floored value 25 is rounded to the
  nearest multiple of 100, and the recommended budget is 0.
\<close>

theorem minimum_floor_lost_by_rounding:
  "map_sum id RecommendedBudget
     (GenerateRecommendationWithPolicy
        (Some \<lparr>cmp_AccountID = ''123456789012'', cmp_AccountName = ''test-account'',
               cmp_CurrentBudget = None, cmp_AverageSpend = 5, cmp_PeakSpend = 10,
               UtilizationPercent = None, Status = StatusNoBudget\<rparr>)
        (Some \<lparr>st_AccountID = ''123456789012'', st_AccountName = ''test-account'',
               AverageMonthlySpend = 5, PeakMonthlySpend = 10, MinMonthlySpend = 1,
               CurrentMonthSpend = Some 5, st_Trend = TrendStable, MonthsAnalyzed = 3\<rparr>)
        \<lparr>Name = ''Default'', GrowthBuffer = 20, MinimumBudget = 100, RoundingIncrement = 10\<rparr>)
   = Inr 100 \<and>
   map_sum id RecommendedBudget
     (GenerateRecommendationWithPolicy
        (Some \<lparr>cmp_AccountID = ''123456789012'', cmp_AccountName = ''test-account'',
               cmp_CurrentBudget = None, cmp_AverageSpend = 5, cmp_PeakSpend = 10,
               UtilizationPercent = None, Status = StatusNoBudget\<rparr>)
        (Some \<lparr>st_AccountID = ''123456789012'', st_AccountName = ''test-account'',
               AverageMonthlySpend = 5, PeakMonthlySpend = 10, MinMonthlySpend = 1,
               CurrentMonthSpend = Some 5, st_Trend = TrendStable, MonthsAnalyzed = 3\<rparr>)
        \<lparr>Name = ''Default'', GrowthBuffer = 20, MinimumBudget = 25, RoundingIncrement = 100\<rparr>)
   = Inr 0"
  by (simp add: GenerateRecommendationWithPolicy_def Let_def roundToIncrement_def math_Round_def)

section \<open>Retry backoff\<close>

lemma go_quot_nonneg: "0 \<le> a \<Longrightarrow> 0 < b \<Longrightarrow> go_quot a b = a div b"
  by (cases "a = 0") (simp_all add: go_quot_def)

lemma go_rem_nonneg: "0 \<le> a \<Longrightarrow> 0 < b \<Longrightarrow> go_rem a b = a mod b"
  by (simp add: go_rem_def go_quot_nonneg minus_div_mult_eq_mod)

lemma Milliseconds_of_ms: "0 \<le> t \<Longrightarrow> Milliseconds (t * Millisecond) = t"
  by (simp add: Milliseconds_def Millisecond_def go_quot_nonneg)

lemma go_trunc_nonneg: "0 \<le> x \<Longrightarrow> 0 \<le> go_trunc x \<and> x - 1 < real_of_int (go_trunc x) \<and> real_of_int (go_trunc x) \<le> x"
  by (simp add: go_trunc_def)

text \<open>
  For a base that is not negative and a clock at or after the epoch, the delay in whole
  milliseconds lies between 75% of the capped backoff (less the millisecond lost to
  truncation) and 125% of it.
\<close>

lemma calculateBackoff_jitter_bounds:
  assumes "0 \<le> backoffMs c" "0 \<le> unixNano"
  shows "0.75 * cappedBackoff c attempt - 1 < real_of_int (Milliseconds (calculateBackoff c attempt unixNano))
       \<and> real_of_int (Milliseconds (calculateBackoff c attempt unixNano)) \<le> 1.25 * cappedBackoff c attempt"
proof -
  define b where "b = cappedBackoff c attempt"
  define r where "r = real_of_int (unixNano mod 1000)"
  define x where "x = b - b * 0.25 + (2 * (b * 0.25) * r / 1000)"
  have b0: "0 \<le> b"
    using assms(1) by (simp add: b_def cappedBackoff_def)
  have r0: "0 \<le> r" and r1: "r \<le> 999"
    unfolding r_def using pos_mod_bound [of 1000 unixNano] by simp_all
  have br: "b * r \<le> b * 999" "0 \<le> b * r"
    using b0 r0 r1 by (simp_all add: mult_left_mono)
  have x0: "0.75 * b \<le> x" and x1: "x \<le> 1.25 * b"
    using br by (simp_all add: x_def)
  have cb: "calculateBackoff c attempt unixNano = go_trunc x * Millisecond"
    using assms(2)
    by (simp add: calculateBackoff_def Let_def go_rem_nonneg x_def b_def r_def cappedBackoff_def min_def)
  have "0 \<le> x" using x0 b0 by simp
  from go_trunc_nonneg [OF this] have t: "0 \<le> go_trunc x" "x - 1 < real_of_int (go_trunc x)" "real_of_int (go_trunc x) \<le> x"
    by simp_all
  show ?thesis
    unfolding cb Milliseconds_of_ms [OF t(1)] b_def [symmetric]
    using t x0 x1 by simp
qed

text \<open>
  Claim C3. The delay lies within 25% of \<open>min(60s, B * 2^attempt)\<close> and, for large
  attempt numbers, never exceeds 60000 ms. The cap is applied before the jitter is
  added: with base 1000 ms, attempt 10 and a clock reading whose last three digits are
  999, the delay is 74970 ms.
\<close>

theorem calculateBackoff_exceeds_cap:
  "Milliseconds (calculateBackoff \<lparr>maxRetries = 3, backoffMs = 1000\<rparr> 10 1700000000000000999)
     = 74970 \<and>
   60000 < Milliseconds (calculateBackoff \<lparr>maxRetries = 3, backoffMs = 1000\<rparr> 10
             1700000000000000999)"
  by (simp add: calculateBackoff_def Let_def go_rem_def go_quot_def go_trunc_def
      Millisecond_def Milliseconds_def power_int_def)

section \<open>Trend classification\<close>

text \<open>The sums the regression loop accumulates, and their closed forms for the indices.\<close>

lemma trendLoop_sums:
  "trendLoop i cs (a, b, c, d) =
     (a + (\<Sum>k<length cs. real (i + k)),
      b + (\<Sum>k<length cs. Amount (cs ! k)),
      c + (\<Sum>k<length cs. real (i + k) * Amount (cs ! k)),
      d + (\<Sum>k<length cs. real (i + k) * real (i + k)))"
proof (induction cs arbitrary: i a b c d)
  case Nil
  then show ?case by simp
next
  case (Cons x xs)
  show ?case
    by (simp add: Cons.IH sum.lessThan_Suc_shift add_ac del: sum.lessThan_Suc)
qed

lemma sum_index: "(\<Sum>k<n. real k) = real n * (real n - 1) / 2"
  by (induction n) (simp_all add: field_simps)

lemma sum_index_sq: "(\<Sum>k<n. real k * real k) = (real n - 1) * real n * (2 * real n - 1) / 6"
  by (induction n) (simp_all add: field_simps)

lemma regressionDenominator_closed:
  "regressionDenominator cs = (real (length cs))\<^sup>2 * ((real (length cs))\<^sup>2 - 1) / 12"
  by (simp add: regressionDenominator_def trendLoop_sums sum_index sum_index_sq power2_eq_square field_simps)

lemma regressionDenominator_pos:
  assumes "2 \<le> length cs"
  shows "0 < regressionDenominator cs"
proof -
  have "1 < real (length cs)" using assms by simp
  then have "1 < (real (length cs))\<^sup>2" by (simp add: power2_eq_square less_1_mult)
  then have "0 < (real (length cs))\<^sup>2 * ((real (length cs))\<^sup>2 - 1)"
    using assms by (intro mult_pos_pos) auto
  then show ?thesis by (simp add: regressionDenominator_closed)
qed

lemma sum_centered:
  fixes f g :: "nat \<Rightarrow> real"
  assumes "0 < n"
  shows "real n * (\<Sum>i<n. (f i - (\<Sum>j<n. f j) / real n) * (g i - (\<Sum>j<n. g j) / real n)) =
         real n * (\<Sum>i<n. f i * g i) - (\<Sum>i<n. f i) * (\<Sum>i<n. g i)"
proof -
  define F where "F = (\<Sum>j<n. f j)"
  define G where "G = (\<Sum>j<n. g j)"
  define N where "N = real n"
  have N: "N \<noteq> 0" using assms by (simp add: N_def)
  have "(\<Sum>i<n. (f i - F / N) * (g i - G / N)) =
        (\<Sum>i<n. f i * g i - (F / N) * g i - (G / N) * f i + (F / N) * (G / N))"
    by (intro sum.cong refl) (simp add: algebra_simps)
  also have "\<dots> = (\<Sum>i<n. f i * g i) - (\<Sum>i<n. (F / N) * g i) - (\<Sum>i<n. (G / N) * f i)
                     + (\<Sum>i<n. (F / N) * (G / N))"
    by (simp add: sum.distrib sum_subtractf)
  also have "\<dots> = (\<Sum>i<n. f i * g i) - (F / N) * G - (G / N) * F + N * ((F / N) * (G / N))"
    unfolding sum_distrib_left [symmetric] by (simp add: F_def G_def N_def)
  also have "N * \<dots> = N * (\<Sum>i<n. f i * g i) - F * G"
    using N by (simp add: field_simps)
  finally show ?thesis unfolding F_def G_def N_def by simp
qed

text \<open>
  The slope \<open>calculateTrend\<close> computes is the least-squares coefficient, and the average
  it takes the threshold from is the arithmetic mean.
\<close>

lemma code_slope_is_ols:
  assumes "2 \<le> length cs"
  shows "(case trendLoop 0 cs (0, 0, 0, 0) of
           (sumX, sumY, sumXY, sumX2) \<Rightarrow>
             (real (length cs) * sumXY - sumX * sumY) / (real (length cs) * sumX2 - sumX * sumX))
         = olsSlope cs"
proof -
  let ?n = "length cs"
  have n: "0 < ?n" using assms by linarith
  have nz: "real ?n \<noteq> 0" using n by simp
  have num: "real ?n * (\<Sum>i<?n. (real i - meanIndex cs) * (Amount (cs ! i) - meanSpend cs)) =
        real ?n * (\<Sum>i<?n. real i * Amount (cs ! i)) - (\<Sum>i<?n. real i) * (\<Sum>i<?n. Amount (cs ! i))"
    unfolding meanIndex_def meanSpend_def by (rule sum_centered [OF n])
  have den: "real ?n * (\<Sum>i<?n. (real i - meanIndex cs) * (real i - meanIndex cs)) =
        real ?n * (\<Sum>i<?n. real i * real i) - (\<Sum>i<?n. real i) * (\<Sum>i<?n. real i)"
    unfolding meanIndex_def by (rule sum_centered [OF n])
  have "olsSlope cs =
     (real ?n * (\<Sum>i<?n. (real i - meanIndex cs) * (Amount (cs ! i) - meanSpend cs))) /
     (real ?n * (\<Sum>i<?n. (real i - meanIndex cs) * (real i - meanIndex cs)))"
    unfolding olsSlope_def using nz by simp
  then show ?thesis
    unfolding num den by (simp add: trendLoop_sums)
qed

lemma code_mean:
  "(case trendLoop 0 cs (0, 0, 0, 0) of (sumX, sumY, sumXY, sumX2) \<Rightarrow> sumY / real (length cs)) = meanSpend cs"
  by (simp add: trendLoop_sums meanSpend_def)

lemma calculateTrend_spec:
  assumes "2 \<le> length cs"
  shows "calculateTrend cs =
           (if \<bar>olsSlope cs\<bar> < 0.05 * meanSpend cs then TrendStable
            else if olsSlope cs > 0 then TrendIncreasing else TrendDecreasing)"
proof -
  obtain sx sy sxy sx2 where t: "trendLoop 0 cs (0, 0, 0, 0) = (sx, sy, sxy, sx2)"
    by (metis prod_cases4)
  have d: "real (length cs) * sx2 - sx * sx \<noteq> 0"
    using regressionDenominator_pos [OF assms] by (simp add: regressionDenominator_def t)
  have s: "(real (length cs) * sxy - sx * sy) / (real (length cs) * sx2 - sx * sx) = olsSlope cs"
    using code_slope_is_ols [OF assms] by (simp add: t)
  have m: "sy / real (length cs) = meanSpend cs"
    using code_mean [of cs] by (simp add: t)
  show ?thesis
    using assms d by (simp add: calculateTrend_def Let_def t s m)
qed

text \<open>
  Claim C6. For fewer than two months the trend is Stable. For two or more months the
  regression denominator is positive (so the guard for a zero denominator never
  fires), and with the least-squares slope of spend against month index and the
  threshold 0.05 times the mean spend: the trend is Stable when the absolute slope is
  below the threshold, Increasing when the slope is positive and its absolute value
  reaches the threshold, Decreasing when the slope is negative and its absolute value
  reaches the threshold.
\<close>

theorem calculateTrend_classification:
  "(length cs < 2 \<longrightarrow> calculateTrend cs = TrendStable) \<and>
   (2 \<le> length cs \<longrightarrow>
      0 < regressionDenominator cs \<and>
      (\<bar>olsSlope cs\<bar> < 0.05 * meanSpend cs \<longrightarrow> calculateTrend cs = TrendStable) \<and>
      (olsSlope cs > 0 \<and> \<bar>olsSlope cs\<bar> \<ge> 0.05 * meanSpend cs \<longrightarrow>
         calculateTrend cs = TrendIncreasing) \<and>
      (olsSlope cs < 0 \<and> \<bar>olsSlope cs\<bar> \<ge> 0.05 * meanSpend cs \<longrightarrow>
         calculateTrend cs = TrendDecreasing))"
  by (simp add: calculateTrend_spec regressionDenominator_pos) (simp add: calculateTrend_def)

lemma ols_increasing:
  "olsSlope (costsOf [100, 150, 200, 250]) = 50 \<and>
   meanSpend (costsOf [100, 150, 200, 250]) = 175"
  by (simp add: olsSlope_def meanSpend_def meanIndex_def costsOf_def)

lemma ols_decreasing:
  "olsSlope (costsOf [250, 200, 150, 100]) = - 50 \<and>
   meanSpend (costsOf [250, 200, 150, 100]) = 175"
  by (simp add: olsSlope_def meanSpend_def meanIndex_def costsOf_def)

lemma ols_flat:
  "olsSlope (costsOf [100, 102, 98, 100]) = - 2 / 5 \<and>
   meanSpend (costsOf [100, 102, 98, 100]) = 100"
  by (simp add: olsSlope_def meanSpend_def meanIndex_def costsOf_def)

theorem calculateTrend_classification_witness:
  "calculateTrend (costsOf [100]) = TrendStable \<and>
   calculateTrend (costsOf [100, 150, 200, 250]) = TrendIncreasing \<and>
   calculateTrend (costsOf [250, 200, 150, 100]) = TrendDecreasing \<and>
   calculateTrend (costsOf [100, 102, 98, 100]) = TrendStable"
  using calculateTrend_classification [of "costsOf [100]"]
    calculateTrend_classification [of "costsOf [100, 150, 200, 250]"]
    calculateTrend_classification [of "costsOf [250, 200, 150, 100]"]
    calculateTrend_classification [of "costsOf [100, 102, 98, 100]"]
    ols_increasing ols_decreasing ols_flat
  by (simp add: costsOf_def)

text \<open>
  The three cases of the claim leave one out: a slope of exactly zero with a threshold
  that is zero or negative. There the code answers Decreasing, as for two months
  without any spend.
\<close>

lemma calculateTrend_no_spend: "calculateTrend (costsOf [0, 0]) = TrendDecreasing"
  by (simp add: calculateTrend_def costsOf_def Let_def)

section \<open>Ordering the recommendations\<close>

text \<open>Insertion sort, and insertion sort after a reversal, meet the contract of \<open>sort.Slice\<close>.\<close>

lemma mset_insertLeft: "mset (insertLeft lt x ys) = add_mset x (mset ys)"
  by (induction ys) simp_all

lemma set_insertLeft: "set (insertLeft lt x ys) = insert x (set ys)"
  by (induction ys) auto

lemma mset_foldl_insertLeft:
  "mset (foldl (\<lambda>prefix x. insertLeft lt x prefix) acc xs) = mset acc + mset xs"
  by (induction xs arbitrary: acc) (simp_all add: mset_insertLeft)

lemma mset_insertionSort: "mset (insertionSort lt xs) = mset xs"
  by (simp add: insertionSort_def mset_foldl_insertLeft)

lemma sorted_insertLeft:
  assumes asym: "\<And>a b. lt a b \<Longrightarrow> \<not> lt b a"
    and ntrans: "\<And>a b c. \<not> lt a b \<Longrightarrow> \<not> lt b c \<Longrightarrow> \<not> lt a c"
    and "sorted_wrt (\<lambda>a b. \<not> lt a b) ys"
  shows "sorted_wrt (\<lambda>a b. \<not> lt a b) (insertLeft lt x ys)"
  using assms(3)
proof (induction ys)
  case Nil
  then show ?case by simp
next
  case (Cons y ys)
  show ?case
  proof (cases "lt x y")
    case True
    then show ?thesis using Cons asym by (auto simp add: set_insertLeft)
  next
    case False
    then show ?thesis using Cons.prems ntrans by auto
  qed
qed

lemma sorted_foldl_insertLeft:
  assumes asym: "\<And>a b. lt a b \<Longrightarrow> \<not> lt b a"
    and ntrans: "\<And>a b c. \<not> lt a b \<Longrightarrow> \<not> lt b c \<Longrightarrow> \<not> lt a c"
    and "sorted_wrt (\<lambda>a b. \<not> lt a b) acc"
  shows "sorted_wrt (\<lambda>a b. \<not> lt a b) (foldl (\<lambda>prefix x. insertLeft lt x prefix) acc xs)"
  using assms(3)
proof (induction xs arbitrary: acc)
  case Nil
  then show ?case by simp
next
  case (Cons x xs)
  show ?case
    using Cons.IH [OF sorted_insertLeft [OF asym ntrans Cons.prems]] by simp
qed

lemma sorted_insertionSort:
  assumes asym: "\<And>a b. lt a b \<Longrightarrow> \<not> lt b a"
    and ntrans: "\<And>a b c. \<not> lt a b \<Longrightarrow> \<not> lt b c \<Longrightarrow> \<not> lt a c"
  shows "sorted_wrt (\<lambda>a b. \<not> lt b a) (insertionSort lt xs)"
proof -
  have "sorted_wrt (\<lambda>a b. \<not> lt a b) (foldl (\<lambda>prefix x. insertLeft lt x prefix) [] xs)"
    by (rule sorted_foldl_insertLeft [OF asym ntrans]) simp_all
  then show ?thesis
    by (simp add: insertionSort_def sorted_wrt_rev)
qed

lemma insertionSort_contract: "sort_Slice_contract insertionSort adjustmentLess"
  unfolding sort_Slice_contract_def
  by (intro allI conjI mset_insertionSort sorted_insertionSort)
     (simp_all add: adjustmentLess_def)





section \<open>Completeness of the analysis result\<close>

text \<open>The three stages after the cost fetch cannot fail on values that are present.\<close>

lemma CalculateStatistics_no_error:
  assumes "cost_Error cost = None"
  shows "\<exists>st. CalculateStatistics (Some cost) = Inr st \<and> st_AccountID st = cost_AccountID cost"
  using assms
  by (cases "MonthlyCosts cost")
     (auto simp add: CalculateStatistics_def Let_def split: prod.splits)

lemma CompareToBudget_present:
  "\<exists>cmp. CompareToBudget (Some st) bc = Inr cmp \<and> cmp_AccountID cmp = st_AccountID st"
  by (cases bc) (simp_all add: CompareToBudget_def Let_def)

lemma GenerateRecommendationWithPolicy_present:
  "\<exists>r. GenerateRecommendationWithPolicy (Some cmp) (Some st) p = Inr r \<and>
       rec_AccountID r = cmp_AccountID cmp"
  by (simp add: GenerateRecommendationWithPolicy_def Let_def)

text \<open>One pass of the loop adds exactly one entry for its account.\<close>

lemma analyzeAccount_error:
  assumes "cost_Error cost = Some e"
  shows "oneMoreError result (analyzeAccount resolver budgetData result cost) (cost_AccountID cost)"
  using assms by (simp add: analyzeAccount_def appendError_def oneMoreError_def)

lemma analyzeAccount_success:
  assumes "cost_Error cost = None"
  shows "oneMoreRecommendation result (analyzeAccount resolver budgetData result cost) (cost_AccountID cost)"
proof -
  obtain st where st: "CalculateStatistics (Some cost) = Inr st" "st_AccountID st = cost_AccountID cost"
    using CalculateStatistics_no_error [OF assms] by blast
  define pick where "pick =
    (case budgetData (cost_AccountID cost) of
                    Some (b # bs) \<Rightarrow>
                      (Some b, AccessStatus b,
                       (if AccessStatus b = BudgetAccessSuccess
                        then result\<lparr>AccountsWithBudgets := AccountsWithBudgets result + 1\<rparr>
                        else result\<lparr>AccountsWithoutBudgets := AccountsWithoutBudgets result + 1\<rparr>))
                  | _ \<Rightarrow>
                      (None, BudgetAccessNotFound,
                       result\<lparr>AccountsWithoutBudgets := AccountsWithoutBudgets result + 1\<rparr>))"
  obtain bc status result1 where p: "pick = (bc, status, result1)"
    by (metis prod_cases3)
  have r1: "Recommendations result1 = Recommendations result \<and> Errors result1 = Errors result"
    using p unfolding pick_def by (auto split: option.splits list.splits if_splits)
  obtain cmp where cmp: "CompareToBudget (Some st) bc = Inr cmp" "cmp_AccountID cmp = st_AccountID st"
    using CompareToBudget_present by blast
  obtain r where r: "GenerateRecommendationWithPolicy (Some cmp) (Some st)
      (ResolvePolicy resolver (cost_AccountID cost)) = Inr r" "rec_AccountID r = cmp_AccountID cmp"
    using GenerateRecommendationWithPolicy_present by blast
  have "analyzeAccount resolver budgetData result cost =
          result1\<lparr>Recommendations := Recommendations result1 @
                                   [r\<lparr>rec_BudgetAccessStatus := Some status\<rparr>],
                                 AccountsAnalyzed := AccountsAnalyzed result1 + 1\<rparr>"
    using assms st(1) p cmp(1) r(1)
    by (simp add: analyzeAccount_def pick_def [symmetric] Let_def)
  then show ?thesis
    using r1 r(2) cmp(2) st(2) by (simp add: oneMoreRecommendation_def)
qed

lemma analyzeAccount_one_entry:
  "(cost_Error cost = None \<and>
      oneMoreRecommendation result (analyzeAccount resolver budgetData result cost) (cost_AccountID cost)) \<or>
   (cost_Error cost \<noteq> None \<and>
      oneMoreError result (analyzeAccount resolver budgetData result cost) (cost_AccountID cost))"
  using analyzeAccount_error analyzeAccount_success by (cases "cost_Error cost") auto

lemma analyzeAccount_entryIDs:
  "entryIDs (analyzeAccount resolver budgetData result cost) =
     entryIDs result + {#cost_AccountID cost#}"
  using analyzeAccount_one_entry [of cost result resolver budgetData]
  by (auto simp add: entryIDs_def oneMoreRecommendation_def oneMoreError_def)

lemma analysisLoop_entryIDs:
  assumes "analysisLoop resolver budgetData ctxDone i costs result = Inr res"
  shows "list_all (\<lambda>c. c \<noteq> None) costs \<and>
         entryIDs res = entryIDs result + mset (map (\<lambda>c. cost_AccountID (the c)) costs)"
  using assms
proof (induction costs arbitrary: i result)
  case Nil
  then show ?case by simp
next
  case (Cons c cs)
  from Cons.prems obtain cost where c: "c = Some cost" and nd: "\<not> ctxDone i"
    and rest: "analysisLoop resolver budgetData ctxDone (Suc i) cs
                 (analyzeAccount resolver budgetData result cost) = Inr res"
    by (auto split: if_splits option.splits)
  from Cons.IH [OF rest] show ?case
    by (simp add: c analyzeAccount_entryIDs)
qed

lemma analysisLoop_completes:
  assumes "\<forall>i. \<not> ctxDone i" "list_all (\<lambda>c. c \<noteq> None) costs"
  shows "\<exists>res. analysisLoop resolver budgetData ctxDone i costs result = Inr res"
  using assms(2)
proof (induction costs arbitrary: i result)
  case Nil
  then show ?case by simp
next
  case (Cons c cs)
  then show ?case using assms(1) by (cases c) auto
qed

lemma costWorker_ID: "cost_AccountID (costWorker api account) = acct_ID account"
  by (simp add: costWorker_def GetAccountCosts_def Let_def split: sum.splits)

lemma GetAllAccountsCosts_IDs:
  assumes "list_all (\<lambda>c. c \<noteq> None) (GetAllAccountsCostsWithProgress api accounts concurrency)"
  shows "map (\<lambda>c. cost_AccountID (the c)) (GetAllAccountsCostsWithProgress api accounts concurrency)
         = map acct_ID accounts"
proof (cases "concurrency \<le> 0")
  case True
  then have "accounts = []"
    using assms by (cases accounts) (simp_all add: GetAllAccountsCostsWithProgress_def)
  then show ?thesis by (simp add: GetAllAccountsCostsWithProgress_def)
next
  case False
  then show ?thesis
    by (simp add: GetAllAccountsCostsWithProgress_def costWorker_ID comp_def)
qed

lemma mset_size_entryIDs:
  "size (entryIDs res) = length (Recommendations res) + length (Errors res)"
  by (simp add: entryIDs_def)

lemma runAnalysis_completes:
  assumes "accounts \<noteq> []" "0 < concurrency" "\<forall>i. \<not> ctxDone i"
  shows "\<exists>res. runAnalysis srt resolver costApi budgetApi concurrency ctxDone accounts = Inr res"
proof -
  have "list_all (\<lambda>c. c \<noteq> None) (GetAllAccountsCostsWithProgress costApi accounts concurrency)"
    using assms(2) by (simp add: GetAllAccountsCostsWithProgress_def list_all_iff)
  from analysisLoop_completes [OF assms(3) this]
  obtain res where
    "analysisLoop resolver (GetAllAccountsBudgetsWithProgress budgetApi accounts concurrency)
       ctxDone 0 (GetAllAccountsCostsWithProgress costApi accounts concurrency)
       \<lparr>AccountsAnalyzed = 0, AccountsWithBudgets = 0, AccountsWithoutBudgets = 0,
          Recommendations = [], Errors = []\<rparr> = Inr res"
    by blast
  then show ?thesis
    using assms(1) by (simp add: runAnalysis_def Let_def)
qed

text \<open>
  Claim C1. For every run that completes (\<open>sort.Slice\<close> meeting its contract), whatever
  fails for single accounts, the numbers of recommendations and of error records add up
  to the number of accounts submitted, and the account ids of the recommendations and
  of the error records together are the ids of the submitted accounts, each as often as
  it was submitted: every account has exactly one entry.
\<close>

theorem runAnalysis_complete_result:
  assumes "sort_Slice_contract srt adjustmentLess"
    and "runAnalysis srt resolver costApi budgetApi concurrency ctxDone accounts = Inr res"
  shows "length (Recommendations res) + length (Errors res) = length accounts \<and>
         mset (map rec_AccountID (Recommendations res)) + mset (map ae_AccountID (Errors res)) =
           mset (map acct_ID accounts)"
proof -
  let ?costData = "GetAllAccountsCostsWithProgress costApi accounts concurrency"
  let ?budgetData = "GetAllAccountsBudgetsWithProgress budgetApi accounts concurrency"
  let ?result0 = "\<lparr>AccountsAnalyzed = 0, AccountsWithBudgets = 0,
                        AccountsWithoutBudgets = 0, Recommendations = [], Errors = []\<rparr>"
  from assms(2) obtain result where
    loop: "analysisLoop resolver ?budgetData ctxDone 0 ?costData ?result0 = Inr result"
    and res: "res = result\<lparr>Recommendations := PrioritizeRecommendations srt (Recommendations result)\<rparr>"
    by (auto simp add: runAnalysis_def Let_def split: if_splits sum.splits)
  from analysisLoop_entryIDs [OF loop]
  have nn: "list_all (\<lambda>c. c \<noteq> None) ?costData"
    and ids: "entryIDs result = entryIDs ?result0 + mset (map (\<lambda>c. cost_AccountID (the c)) ?costData)"
    by simp_all
  have perm: "mset (Recommendations res) = mset (Recommendations result)"
    using assms(1) by (simp add: res PrioritizeRecommendations_def PrioritizeRecommendations_run_def
        Let_def sort_Slice_contract_def)
  have "mset (map rec_AccountID (Recommendations res)) = mset (map rec_AccountID (Recommendations result))"
    using perm by (metis mset_map)
  then have "entryIDs res = entryIDs result"
    by (simp add: entryIDs_def res)
  then have e: "entryIDs res = mset (map acct_ID accounts)"
    using ids GetAllAccountsCosts_IDs [OF nn] by (simp add: entryIDs_def)
  have "size (entryIDs res) = length accounts" by (simp add: e)
  then have "length (Recommendations res) + length (Errors res) = length accounts"
    by (simp add: mset_size_entryIDs)
  moreover have "mset (map rec_AccountID (Recommendations res)) +
      mset (map ae_AccountID (Errors res)) = mset (map acct_ID accounts)"
    using e by (simp add: entryIDs_def)
  ultimately show ?thesis by blast
qed

lemma example_run:
  "\<exists>res. runAnalysis insertionSort exampleResolver exampleCostApi exampleBudgetApi 5 (\<lambda>i. False)
       exampleAccounts = Inr res \<and>
     map rec_AccountID (Recommendations res) = [''345678901234'', ''123456789012''] \<and>
     map RecommendedBudget (Recommendations res) = [10, 280] \<and>
     map ae_AccountID (Errors res) = [''234567890123'']"
  by (simp add: runAnalysis_def Let_def exampleAccounts_def exampleCostApi_def exampleBudgetApi_def
      GetAllAccountsCostsWithProgress_def GetAllAccountsBudgetsWithProgress_def costWorker_def
      GetAccountCosts_def analyzeAccount_def appendError_def CalculateStatistics_def
      CompareToBudget_def GenerateRecommendationWithPolicy_def calculateTrend_def
      roundToIncrement_def math_Round_def determinePriority_def generateJustification_def
      math_Abs_def ResolvePolicy_def example_defs PrioritizeRecommendations_def
      PrioritizeRecommendations_run_def insertionSort_def adjustmentLess_def)

theorem runAnalysis_complete_result_witness:
  "sort_Slice_contract insertionSort adjustmentLess \<and>
   (\<exists>res. runAnalysis insertionSort exampleResolver exampleCostApi exampleBudgetApi 5
            (\<lambda>i. False) exampleAccounts = Inr res \<and>
          map rec_AccountID (Recommendations res) = [''345678901234'', ''123456789012''] \<and>
          map ae_AccountID (Errors res) = [''234567890123''] \<and>
          length (Recommendations res) + length (Errors res) = length exampleAccounts)"
proof -
  obtain res where run:
    "runAnalysis insertionSort exampleResolver exampleCostApi exampleBudgetApi 5
       (\<lambda>i. False) exampleAccounts = Inr res"
    and ids: "map rec_AccountID (Recommendations res) = [''345678901234'', ''123456789012'']"
      "map ae_AccountID (Errors res) = [''234567890123'']"
    using example_run by auto
  from runAnalysis_complete_result [OF insertionSort_contract run]
  have "length (Recommendations res) + length (Errors res) = length exampleAccounts"
    by simp
  with insertionSort_contract run ids show ?thesis
    by (intro conjI exI [of _ res]) assumption+
qed

end
